theory Spec2Isabelle
  imports Main "HOL-Library.Word" "HOL-Library.Sublist"
begin

section \<open>Python and numpy values\<close>

text \<open>
  The source is \<^verbatim>\<open>deepchem/feat/graph_data.py\<close>: the classes \<^verbatim>\<open>GraphData\<close> and
  \<^verbatim>\<open>BatchGraphData\<close>. Both constructors raise; an exception is a value of type
  \<open>error\<close> on the left of a sum. The messages of the constructor's own \<^verbatim>\<open>raise\<close>
  statements are the source's strings; the messages of exceptions raised by Python or
  numpy are the fixed leading part of the interpreter's text.
\<close>

datatype error =
    ValueError string
  | IndexError string
  | AttributeError string
  | OverflowError string
  | AxisError string

text \<open>
  A numpy array is its shape and its elements in row-major (C) order. numpy keeps
  \<open>length (items a) = prod_list (shape a)\<close>; \<open>wf_array\<close> says so.
\<close>

datatype 'a ndarray = NDArray (shape: "nat list") (items: "'a list")

definition wf_array :: "'a ndarray \<Rightarrow> bool" where
  "wf_array a = (length (items a) = prod_list (shape a))"

text \<open>
  \<^verbatim>\<open>np.int\<close> is the platform's default integer, 64 bits wide here; arithmetic on such an
  array wraps around.
\<close>

type_synonym int64 = "64 word"

text \<open>
  The element of a feature matrix: a number of a numeric type \<open>'a\<close> that the code never
  inspects, or, in an object array, Python's \<^verbatim>\<open>None\<close> (what \<^verbatim>\<open>np.vstack\<close> makes of a
  \<^verbatim>\<open>None\<close> in its argument list).
\<close>

datatype 'a elem = Num 'a | NoneElem

type_synonym 'a features = "'a elem ndarray"

text \<open>
  An array as the constructor's \<^verbatim>\<open>edge_index\<close> argument sees it: its dtype is
  \<^verbatim>\<open>np.int\<close>, or it is something else.
\<close>

datatype 'a anyarray = IntArray "int64 ndarray" | NonIntArray "'a features"

text \<open>
  A Python argument: \<^verbatim>\<open>None\<close>, an \<^verbatim>\<open>np.ndarray\<close>, or any other object.
\<close>

datatype 'a py = PyNone | PyObject | Ndarray 'a

fun py_of_option :: "'a option \<Rightarrow> 'a py" where
  "py_of_option None = PyNone"
| "py_of_option (Some a) = Ndarray a"

text \<open>\<^verbatim>\<open>a.shape[i]\<close>: indexing the shape tuple raises out of range.\<close>

definition shape_at :: "'a ndarray \<Rightarrow> nat \<Rightarrow> error + nat" where
  "shape_at a i =
     (if i < length (shape a) then Inr (shape a ! i)
      else Inl (IndexError ''tuple index out of range''))"

subsection \<open>Concatenation\<close>

text \<open>
  \<^verbatim>\<open>np.atleast_1d\<close> and \<^verbatim>\<open>np.atleast_2d\<close>: a 0-d array becomes \<open>(1)\<close> or \<open>(1, 1)\<close>, a
  1-d array of length \<open>n\<close> becomes \<open>(1, n)\<close>; the elements stay as they are.
\<close>

definition atleast_1d :: "'a ndarray \<Rightarrow> 'a ndarray" where
  "atleast_1d a = (case shape a of [] \<Rightarrow> NDArray [1] (items a) | _ \<Rightarrow> a)"

definition atleast_2d :: "'a ndarray \<Rightarrow> 'a ndarray" where
  "atleast_2d a =
     (case shape a of
        [] \<Rightarrow> NDArray [1, 1] (items a)
      | [n] \<Rightarrow> NDArray [1, n] (items a)
      | _ \<Rightarrow> a)"

text \<open>
  \<^verbatim>\<open>np.concatenate(arrs, axis)\<close> checks, in this order: that there is an array, that the
  first one is not 0-d, that the axis exists, and then for each array in turn that it has
  the first one's number of dimensions and the first one's shape off the axis.
\<close>

fun check_shapes :: "nat list \<Rightarrow> nat \<Rightarrow> 'a ndarray list \<Rightarrow> error + unit" where
  "check_shapes s axis [] = Inr ()"
| "check_shapes s axis (b # bs) =
     (if length (shape b) \<noteq> length s
      then Inl (ValueError ''all the input arrays must have same number of dimensions'')
      else if take axis (shape b) \<noteq> take axis s
          then Inl (ValueError ''all the input array dimensions except for the concatenation axis must match exactly'')
      else if drop (Suc axis) (shape b) \<noteq> drop (Suc axis) s
          then Inl (ValueError ''all the input array dimensions except for the concatenation axis must match exactly'')
      else check_shapes s axis bs)"

text \<open>
  In row-major order an array is \<open>prod_list (take axis (shape b))\<close> blocks, one for each
  index before the axis, each of \<open>prod_list (drop axis (shape b))\<close> elements. The result
  of a concatenation has, for each such index, the arrays' blocks one after the other.
\<close>

definition block :: "nat \<Rightarrow> nat \<Rightarrow> 'a ndarray \<Rightarrow> 'a list" where
  "block axis k b =
     (let c = prod_list (drop axis (shape b)) in take c (drop (k * c) (items b)))"

definition concatenate :: "'a ndarray list \<Rightarrow> nat \<Rightarrow> error + 'a ndarray" where
  "concatenate arrs axis =
     (case arrs of
        [] \<Rightarrow> Inl (ValueError ''need at least one array to concatenate'')
      | a # rest \<Rightarrow>
          if shape a = [] then Inl (ValueError ''zero-dimensional arrays cannot be concatenated'')
          else if length (shape a) \<le> axis then Inl (AxisError ''axis is out of bounds'')
          else
            (case check_shapes (shape a) axis rest of
               Inl e \<Rightarrow> Inl e
             | Inr _ \<Rightarrow>
                 Inr (NDArray
                   (take axis (shape a) @ [sum_list (map (\<lambda>b. shape b ! axis) arrs)]
                      @ drop (Suc axis) (shape a))
                   (concat (map (\<lambda>k. concat (map (block axis k) arrs))
                      [0 ..< prod_list (take axis (shape a))])))))"

text \<open>
  \<^verbatim>\<open>np.vstack\<close> concatenates along the first axis after \<^verbatim>\<open>atleast_2d\<close>; \<^verbatim>\<open>np.hstack\<close>
  concatenates along the second axis after \<^verbatim>\<open>atleast_1d\<close>, and along the first when the
  first array is 1-d.
\<close>

definition vstack :: "'a ndarray list \<Rightarrow> error + 'a ndarray" where
  "vstack tup = concatenate (map atleast_2d tup) 0"

definition hstack :: "'a ndarray list \<Rightarrow> error + 'a ndarray" where
  "hstack tup =
     (let arrs = map atleast_1d tup in
      case arrs of
        [] \<Rightarrow> concatenate arrs 1
      | a # _ \<Rightarrow> if length (shape a) = 1 then concatenate arrs 0 else concatenate arrs 1)"

text \<open>
  What \<^verbatim>\<open>np.vstack\<close> makes of an attribute that may be \<^verbatim>\<open>None\<close>: \<^verbatim>\<open>None\<close> becomes a
  0-d object array holding \<^verbatim>\<open>None\<close>.
\<close>

fun asanyarray :: "'a features option \<Rightarrow> 'a features" where
  "asanyarray None = NDArray [] [NoneElem]"
| "asanyarray (Some a) = a"

text \<open>
  \<^verbatim>\<open>a + n\<close> for an \<^verbatim>\<open>np.int\<close> array and a Python integer that is an array dimension
  (so below \<open>2 ^ 63\<close>): a new array, each element plus \<open>n\<close>, wrapping around.
\<close>

definition add_scalar :: "int64 ndarray \<Rightarrow> nat \<Rightarrow> int64 ndarray" where
  "add_scalar a n = NDArray (shape a) (map (\<lambda>x. x + of_nat n) (items a))"

text \<open>
  \<^verbatim>\<open>a.astype(int)\<close> on an \<^verbatim>\<open>np.int\<close> array: a copy with the same shape and elements.
\<close>

definition astype_int :: "int64 ndarray \<Rightarrow> int64 ndarray" where
  "astype_int a = NDArray (shape a) (items a)"

text \<open>
  \<^verbatim>\<open>np.array(xs, dtype=int)\<close> for a list of non-negative Python integers: a 1-d array;
  an integer that does not fit 64 signed bits raises.
\<close>

definition np_array_int :: "nat list \<Rightarrow> error + int64 ndarray" where
  "np_array_int xs =
     (if list_all (\<lambda>x. x < 2 ^ 63) xs then Inr (NDArray [length xs] (map of_nat xs))
      else Inl (OverflowError ''Python int too large to convert to C long''))"

section \<open>GraphData\<close>

record 'a GraphData =
  node_features :: "'a features"
  edge_index :: "int64 ndarray"
  edge_features :: "'a features option"
  graph_features :: "'a features option"
  num_nodes :: nat
  num_node_features :: nat
  num_edges :: nat
  num_edge_features :: nat

text \<open>
  The constructor, statement by statement. Lines 58 to 66 check \<^verbatim>\<open>node_features\<close> and
  \<^verbatim>\<open>edge_index\<close>; what passes is an \<^verbatim>\<open>np.int\<close> array with two rows.
\<close>

definition check_edge_index :: "'a anyarray py \<Rightarrow> error + int64 ndarray" where
  "check_edge_index edge_index' =
     (case edge_index' of
        Ndarray (IntArray ei) \<Rightarrow>
          (case shape_at ei 0 of
             Inl e \<Rightarrow> Inl e
           | Inr r \<Rightarrow>
               if r \<noteq> 2 then Inl (ValueError ''The shape of edge_index is [2, num_edges].'')
               else Inr ei)
      | Ndarray (NonIntArray _) \<Rightarrow> Inl (ValueError ''edge_index.dtype must be np.int'')
      | _ \<Rightarrow> Inl (ValueError ''edge_index must be np.ndarray.''))"

text \<open>
  Lines 68 to 73. The message continues over a line break inside the literal, so it
  holds the next line's indentation.
\<close>

definition check_edge_features :: "int64 ndarray \<Rightarrow> 'a features py \<Rightarrow> error + 'a features option" where
  "check_edge_features ei edge_features' =
     (case edge_features' of
        PyNone \<Rightarrow> Inr None
      | PyObject \<Rightarrow> Inl (ValueError ''edge_features must be np.ndarray or None.'')
      | Ndarray ef \<Rightarrow>
          (case shape_at ei 1 of
             Inl e \<Rightarrow> Inl e
           | Inr c \<Rightarrow>
               (case shape_at ef 0 of
                  Inl e \<Rightarrow> Inl e
                | Inr r \<Rightarrow>
                    if c \<noteq> r
                    then Inl (ValueError ''The first dimension of edge_features must be the                     same as the second dimension of edge_index.'')
                    else Inr (Some ef))))"

text \<open>Lines 75 to 77.\<close>

definition check_graph_features :: "'a features py \<Rightarrow> error + 'a features option" where
  "check_graph_features graph_features' =
     (case graph_features' of
        PyNone \<Rightarrow> Inr None
      | PyObject \<Rightarrow> Inl (ValueError ''graph_features must be np.ndarray or None.'')
      | Ndarray gf \<Rightarrow> Inr (Some gf))"

text \<open>
  Line 83 unpacks the shape of \<^verbatim>\<open>node_features\<close> into two names, which raises unless
  the array is 2-d.
\<close>

definition unpack_shape :: "'a ndarray \<Rightarrow> error + nat \<times> nat" where
  "unpack_shape a =
     (case shape a of
        [n, f] \<Rightarrow> Inr (n, f)
      | [] \<Rightarrow> Inl (ValueError ''not enough values to unpack'')
      | [n] \<Rightarrow> Inl (ValueError ''not enough values to unpack'')
      | _ \<Rightarrow> Inl (ValueError ''too many values to unpack''))"

text \<open>
  Lines 85 and 86. The guard tests \<^verbatim>\<open>self.node_features\<close>, which is an array at this
  point and never \<^verbatim>\<open>None\<close>, so line 86 always runs: it reads
  \<^verbatim>\<open>self.edge_features.shape[1]\<close>, and \<^verbatim>\<open>None\<close> has no attribute \<^verbatim>\<open>shape\<close>.
\<close>

definition edge_features_width :: "'a features option \<Rightarrow> error + nat" where
  "edge_features_width edge_features' =
     (case edge_features' of
        None \<Rightarrow> Inl (AttributeError ''NoneType object has no attribute shape'')
      | Some ef \<Rightarrow> shape_at ef 1)"

definition GraphData_init ::
  "'a features py \<Rightarrow> 'a anyarray py \<Rightarrow> 'a features py \<Rightarrow> 'a features py \<Rightarrow> error + 'a GraphData"
where
  "GraphData_init node_features' edge_index' edge_features' graph_features' =
     (case node_features' of
        Ndarray nf \<Rightarrow>
          (case check_edge_index edge_index' of
             Inl e \<Rightarrow> Inl e
           | Inr ei \<Rightarrow>
          (case check_edge_features ei edge_features' of
             Inl e \<Rightarrow> Inl e
           | Inr ef \<Rightarrow>
          (case check_graph_features graph_features' of
             Inl e \<Rightarrow> Inl e
           | Inr gf \<Rightarrow>
          (case unpack_shape nf of
             Inl e \<Rightarrow> Inl e
           | Inr (n, f) \<Rightarrow>
          (case shape_at ei 1 of
             Inl e \<Rightarrow> Inl e
           | Inr m \<Rightarrow>
          (case edge_features_width ef of
             Inl e \<Rightarrow> Inl e
           | Inr k \<Rightarrow>
               Inr \<lparr>node_features = nf, edge_index = ei, edge_features = ef,
                    graph_features = gf, num_nodes = n, num_node_features = f,
                    num_edges = m, num_edge_features = k\<rparr>))))))
      | _ \<Rightarrow> Inl (ValueError ''node_features must be np.ndarray.''))"

section \<open>BatchGraphData\<close>

record 'a BatchGraphData = "'a GraphData" +
  graph_index :: "int64 ndarray"

text \<open>\<^verbatim>\<open>graphs[0]\<close>: raises on the empty list.\<close>

definition first_graph :: "'b list \<Rightarrow> error + 'b" where
  "first_graph graphs =
     (case graphs of [] \<Rightarrow> Inl (IndexError ''list index out of range'') | g # _ \<Rightarrow> Inr g)"

text \<open>
  Lines 167 to 176, once for \<^verbatim>\<open>edge_features\<close> and once for \<^verbatim>\<open>graph_features\<close>: the
  attribute of every graph is stacked when the first graph has it, and the batch has
  \<^verbatim>\<open>None\<close> otherwise.
\<close>

definition stack_if_present ::
  "('a GraphData \<Rightarrow> 'a features option) \<Rightarrow> 'a GraphData list \<Rightarrow> error + 'a features option"
where
  "stack_if_present attr graphs =
     (case first_graph graphs of
        Inl e \<Rightarrow> Inl e
      | Inr g0 \<Rightarrow>
          (case attr g0 of
             None \<Rightarrow> Inr None
           | Some _ \<Rightarrow>
               (case vstack (map (\<lambda>graph. asanyarray (attr graph)) graphs) of
                  Inl e \<Rightarrow> Inl e
                | Inr a \<Rightarrow> Inr (Some a))))"

text \<open>
  Lines 179 to 183: the list \<^verbatim>\<open>[0] + num_nodes_list[:-1]\<close> is zipped with the graphs, each
  graph's \<^verbatim>\<open>edge_index\<close> is shifted by the number paired with it, and the shifted arrays
  are stacked side by side.
\<close>

definition prev_num_nodes :: "'a GraphData list \<Rightarrow> nat list" where
  "prev_num_nodes graphs = (let num_nodes_list = map num_nodes graphs in 0 # butlast num_nodes_list)"

definition shifted :: "'a GraphData list \<Rightarrow> int64 ndarray list" where
  "shifted graphs =
     map (\<lambda>(prev_num_node, graph). add_scalar (edge_index graph) prev_num_node)
       (zip (prev_num_nodes graphs) graphs)"

definition batch_edge_index :: "'a GraphData list \<Rightarrow> error + int64 ndarray" where
  "batch_edge_index graphs =
     (case hstack (shifted graphs) of
        Inl e \<Rightarrow> Inl e
      | Inr a \<Rightarrow> Inr (astype_int a))"

text \<open>
  Lines 186 to 188: the loop over \<^verbatim>\<open>enumerate(num_nodes_list)\<close> that extends the Python
  list \<^verbatim>\<open>graph_index\<close>.
\<close>

fun graph_index_loop :: "(nat \<times> nat) list \<Rightarrow> nat list \<Rightarrow> nat list" where
  "graph_index_loop [] acc = acc"
| "graph_index_loop ((i, n) # rest) acc = graph_index_loop rest (acc @ replicate n i)"

definition graph_index_list :: "'a GraphData list \<Rightarrow> nat list" where
  "graph_index_list graphs = graph_index_loop (enumerate 0 (map num_nodes graphs)) []"

text \<open>
  The constructor. \<^verbatim>\<open>self.graph_index\<close> is set before \<^verbatim>\<open>super().__init__\<close> runs, but
  when that raises the caller gets the exception and no object.
\<close>

definition BatchGraphData_init :: "'a GraphData list \<Rightarrow> error + 'a BatchGraphData" where
  "BatchGraphData_init graphs =
     (case vstack (map node_features graphs) of
        Inl e \<Rightarrow> Inl e
      | Inr batch_node_features \<Rightarrow>
     (case stack_if_present edge_features graphs of
        Inl e \<Rightarrow> Inl e
      | Inr batch_edge_features \<Rightarrow>
     (case stack_if_present graph_features graphs of
        Inl e \<Rightarrow> Inl e
      | Inr batch_graph_features \<Rightarrow>
     (case batch_edge_index graphs of
        Inl e \<Rightarrow> Inl e
      | Inr bei \<Rightarrow>
     (case np_array_int (graph_index_list graphs) of
        Inl e \<Rightarrow> Inl e
      | Inr gi \<Rightarrow>
     (case GraphData_init (Ndarray batch_node_features) (Ndarray (IntArray bei))
             (py_of_option batch_edge_features) (py_of_option batch_graph_features) of
        Inl e \<Rightarrow> Inl e
      | Inr g \<Rightarrow>
          Inr \<lparr>node_features = node_features g, edge_index = edge_index g,
               edge_features = edge_features g, graph_features = graph_features g,
               num_nodes = num_nodes g, num_node_features = num_node_features g,
               num_edges = num_edges g, num_edge_features = num_edge_features g,
               graph_index = gi\<rparr>))))))"

text \<open>
  A record is a \<^verbatim>\<open>GraphData\<close> object when the constructor, given its four arrays,
  returns it: its derived attributes are then the ones the constructor computes.
\<close>

definition is_GraphData :: "'a GraphData \<Rightarrow> bool" where
  "is_GraphData g =
     (GraphData_init (Ndarray (node_features g)) (Ndarray (IntArray (edge_index g)))
        (py_of_option (edge_features g)) (py_of_option (graph_features g)) = Inr g)"

section \<open>Predicates of the properties\<close>

text \<open>A result that is a \<^verbatim>\<open>ValueError\<close>, the exception of every validation check.\<close>

fun is_ValueError :: "error + 'b \<Rightarrow> bool" where
  "is_ValueError (Inl (ValueError m)) = True"
| "is_ValueError _ = False"

fun anyarray_shape :: "'a anyarray \<Rightarrow> nat list" where
  "anyarray_shape (IntArray a) = shape a"
| "anyarray_shape (NonIntArray a) = shape a"

text \<open>
  Every entry of \<^verbatim>\<open>edge_index\<close>, read as a signed integer, is a node number of the
  graph.
\<close>

definition edge_index_in_range :: "'a GraphData \<Rightarrow> bool" where
  "edge_index_in_range g =
     list_all (\<lambda>x. 0 \<le> sint x \<and> sint x < int (num_nodes g)) (items (edge_index g))"

text \<open>
  The offsets as the specification words them: the offset of graph \<open>i\<close> is the sum of the
  node counts of the graphs before it. The code's list is \<open>prev_num_nodes\<close>.
\<close>

definition spec_offsets :: "'a GraphData list \<Rightarrow> nat list" where
  "spec_offsets graphs =
     map (\<lambda>i. sum_list (take i (map num_nodes graphs))) [0 ..< length graphs]"

subsection \<open>Example graphs\<close>

text \<open>
  A path on three nodes with the edges \<open>0 \<rightarrow> 1\<close> and \<open>1 \<rightarrow> 2\<close>, and a graph on two nodes
  with the edge \<open>0 \<rightarrow> 1\<close>; one feature per node and per edge.
\<close>

definition graph_a :: "int GraphData" where
  "graph_a = \<lparr>node_features = NDArray [3, 1] [Num 0, Num 1, Num 2],
              edge_index = NDArray [2, 2] [0, 1, 1, 2],
              edge_features = Some (NDArray [2, 1] [Num 8, Num 9]), graph_features = None,
              num_nodes = 3, num_node_features = 1, num_edges = 2, num_edge_features = 1\<rparr>"

definition graph_b :: "int GraphData" where
  "graph_b = \<lparr>node_features = NDArray [2, 1] [Num 3, Num 4],
              edge_index = NDArray [2, 1] [0, 1],
              edge_features = Some (NDArray [1, 1] [Num 7]), graph_features = None,
              num_nodes = 2, num_node_features = 1, num_edges = 1, num_edge_features = 1\<rparr>"

text \<open>
  The arrays of a record are well-formed numpy arrays.
\<close>

definition wf_GraphData :: "'a GraphData \<Rightarrow> bool" where
  "wf_GraphData g =
     (wf_array (node_features g) \<and> wf_array (edge_index g)
      \<and> (case edge_features g of None \<Rightarrow> True | Some a \<Rightarrow> wf_array a)
      \<and> (case graph_features g of None \<Rightarrow> True | Some a \<Rightarrow> wf_array a))"

text \<open>
  The graph on two nodes again, with a graph feature vector of the documented shape
  \<^verbatim>\<open>[num_graph_features,]\<close>.
\<close>

definition graph_c :: "int GraphData" where
  "graph_c = \<lparr>node_features = NDArray [2, 1] [Num 3, Num 4],
              edge_index = NDArray [2, 1] [0, 1],
              edge_features = Some (NDArray [1, 1] [Num 7]),
              graph_features = Some (NDArray [2] [Num 5, Num 6]),
              num_nodes = 2, num_node_features = 1, num_edges = 1, num_edge_features = 1\<rparr>"

text \<open>
  The list that the loop of lines 186 to 188 builds, written without the accumulator:
  for the node counts \<open>ns\<close> of the graphs numbered from \<open>k\<close>, each graph's number as
  many times as it has nodes.
\<close>

definition blocks :: "nat \<Rightarrow> nat list \<Rightarrow> nat list" where
  "blocks k ns = concat (map (\<lambda>(i, n). replicate n i) (enumerate k ns))"

text \<open>A graph with no node and no edge.\<close>

definition graph_e :: "int GraphData" where
  "graph_e = \<lparr>node_features = NDArray [0, 1] [],
              edge_index = NDArray [2, 0] [],
              edge_features = Some (NDArray [0, 1] []), graph_features = None,
              num_nodes = 0, num_node_features = 1, num_edges = 0, num_edge_features = 1\<rparr>"

section \<open>Arrays as objects\<close>

text \<open>
  The definitions above give an attribute the value of its array. To say that an array
  is not written to, and that two attributes are not the same array, arrays get
  identities: a heap holds the arrays that exist, an array's identity is its position,
  an allocation appends, and an object's attribute holds an identity. Feature arrays and
  integer arrays are kept in two lists (so one array is never read at both types).
  Each numpy call of the source returns a new array: \<^verbatim>\<open>np.vstack\<close>, \<^verbatim>\<open>np.hstack\<close>,
  \<^verbatim>\<open>a + n\<close>, \<^verbatim>\<open>astype\<close> and \<^verbatim>\<open>np.array\<close> allocate, and nothing in the source assigns
  into an array.
\<close>

record 'a heap =
  feature_arrays :: "'a features list"
  index_arrays :: "int64 ndarray list"

definition feat :: "'a heap \<Rightarrow> nat \<Rightarrow> 'a features" where
  "feat h i = feature_arrays h ! i"

definition idx :: "'a heap \<Rightarrow> nat \<Rightarrow> int64 ndarray" where
  "idx h i = index_arrays h ! i"

text \<open>Allocation: the new array goes to the end, its identity is returned.\<close>

definition new_features :: "'a heap \<Rightarrow> 'a features \<Rightarrow> 'a heap \<times> nat" where
  "new_features h a = (h\<lparr>feature_arrays := feature_arrays h @ [a]\<rparr>, length (feature_arrays h))"

definition new_index :: "'a heap \<Rightarrow> int64 ndarray \<Rightarrow> 'a heap \<times> nat" where
  "new_index h a = (h\<lparr>index_arrays := index_arrays h @ [a]\<rparr>, length (index_arrays h))"

fun new_index_list :: "'a heap \<Rightarrow> int64 ndarray list \<Rightarrow> 'a heap \<times> nat list" where
  "new_index_list h [] = (h, [])"
| "new_index_list h (a # rest) =
     (case new_index h a of (h1, i) \<Rightarrow>
      case new_index_list h1 rest of (h2, ids) \<Rightarrow> (h2, i # ids))"

text \<open>
  A \<^verbatim>\<open>GraphData\<close> object: the identities of its arrays and its counts. \<open>load\<close> reads
  the arrays off the heap and gives the record of values.
\<close>

record GraphData_obj =
  node_features_id :: nat
  edge_index_id :: nat
  edge_features_id :: "nat option"
  graph_features_id :: "nat option"
  num_nodes_of :: nat
  num_node_features_of :: nat
  num_edges_of :: nat
  num_edge_features_of :: nat

record BatchGraphData_obj = GraphData_obj +
  graph_index_id :: nat

definition load :: "'a heap \<Rightarrow> GraphData_obj \<Rightarrow> 'a GraphData" where
  "load h g =
     \<lparr>node_features = feat h (node_features_id g), edge_index = idx h (edge_index_id g),
      edge_features = map_option (feat h) (edge_features_id g),
      graph_features = map_option (feat h) (graph_features_id g),
      num_nodes = num_nodes_of g, num_node_features = num_node_features_of g,
      num_edges = num_edges_of g, num_edge_features = num_edge_features_of g\<rparr>"

text \<open>
  The constructor validates the arrays it is given and keeps their identities (lines 79
  to 82 assign the arguments themselves).
\<close>

definition GraphData_init_heap ::
  "'a heap \<Rightarrow> nat \<Rightarrow> nat \<Rightarrow> nat option \<Rightarrow> nat option \<Rightarrow> error + GraphData_obj"
where
  "GraphData_init_heap h nf ei ef gf =
     (case GraphData_init (Ndarray (feat h nf)) (Ndarray (IntArray (idx h ei)))
             (py_of_option (map_option (feat h) ef)) (py_of_option (map_option (feat h) gf)) of
        Inl e \<Rightarrow> Inl e
      | Inr g \<Rightarrow>
          Inr \<lparr>node_features_id = nf, edge_index_id = ei, edge_features_id = ef,
               graph_features_id = gf, num_nodes_of = num_nodes g,
               num_node_features_of = num_node_features g, num_edges_of = num_edges g,
               num_edge_features_of = num_edge_features g\<rparr>)"

text \<open>Lines 167 to 176 again: the stacked array is a new one.\<close>

definition stack_if_present_heap ::
  "'a heap \<Rightarrow> (GraphData_obj \<Rightarrow> nat option) \<Rightarrow> GraphData_obj list
     \<Rightarrow> 'a heap \<times> (error + nat option)"
where
  "stack_if_present_heap h attr graphs =
     (case first_graph graphs of
        Inl e \<Rightarrow> (h, Inl e)
      | Inr g0 \<Rightarrow>
          (case attr g0 of
             None \<Rightarrow> (h, Inr None)
           | Some _ \<Rightarrow>
               (case vstack (map (\<lambda>graph. asanyarray (map_option (feat h) (attr graph))) graphs) of
                  Inl e \<Rightarrow> (h, Inl e)
                | Inr a \<Rightarrow> (case new_features h a of (h1, i) \<Rightarrow> (h1, Inr (Some i))))))"

text \<open>
  Lines 179 to 183 again: every \<^verbatim>\<open>graph.edge_index + prev_num_node\<close> is a new array,
  \<^verbatim>\<open>np.hstack\<close> makes a new array of them, and \<^verbatim>\<open>astype\<close> a copy of that.
\<close>

definition batch_edge_index_heap ::
  "'a heap \<Rightarrow> GraphData_obj list \<Rightarrow> 'a heap \<times> (error + nat)"
where
  "batch_edge_index_heap h graphs =
     (let num_nodes_list = map num_nodes_of graphs in
      case new_index_list h
             (map (\<lambda>(prev_num_node, graph). add_scalar (idx h (edge_index_id graph)) prev_num_node)
                (zip (0 # butlast num_nodes_list) graphs)) of
        (h1, shifted_ids) \<Rightarrow>
          (case hstack (map (idx h1) shifted_ids) of
             Inl e \<Rightarrow> (h1, Inl e)
           | Inr a \<Rightarrow>
               (case new_index h1 a of (h2, stacked) \<Rightarrow>
                case new_index h2 (astype_int (idx h2 stacked)) of (h3, r) \<Rightarrow> (h3, Inr r))))"

definition BatchGraphData_init_heap ::
  "'a heap \<Rightarrow> GraphData_obj list \<Rightarrow> 'a heap \<times> (error + BatchGraphData_obj)"
where
  "BatchGraphData_init_heap h graphs =
     (case vstack (map (\<lambda>graph. feat h (node_features_id graph)) graphs) of
        Inl e \<Rightarrow> (h, Inl e)
      | Inr a \<Rightarrow>
     (case new_features h a of (h1, batch_node_features) \<Rightarrow>
     (case stack_if_present_heap h1 edge_features_id graphs of
        (h2, Inl e) \<Rightarrow> (h2, Inl e)
      | (h2, Inr batch_edge_features) \<Rightarrow>
     (case stack_if_present_heap h2 graph_features_id graphs of
        (h3, Inl e) \<Rightarrow> (h3, Inl e)
      | (h3, Inr batch_graph_features) \<Rightarrow>
     (case batch_edge_index_heap h3 graphs of
        (h4, Inl e) \<Rightarrow> (h4, Inl e)
      | (h4, Inr bei) \<Rightarrow>
     (case np_array_int (graph_index_loop (enumerate 0 (map num_nodes_of graphs)) []) of
        Inl e \<Rightarrow> (h4, Inl e)
      | Inr gi \<Rightarrow>
     (case new_index h4 gi of (h5, gid) \<Rightarrow>
     (case GraphData_init_heap h5 batch_node_features bei batch_edge_features
             batch_graph_features of
        Inl e \<Rightarrow> (h5, Inl e)
      | Inr g \<Rightarrow>
          (h5, Inr \<lparr>node_features_id = node_features_id g, edge_index_id = edge_index_id g,
                    edge_features_id = edge_features_id g,
                    graph_features_id = graph_features_id g,
                    num_nodes_of = num_nodes_of g,
                    num_node_features_of = num_node_features_of g,
                    num_edges_of = num_edges_of g,
                    num_edge_features_of = num_edge_features_of g,
                    graph_index_id = gid\<rparr>)))))))))"

text \<open>
  A later heap: every array of the earlier heap is still there, unchanged, under its
  identity. An object is live in a heap that holds all its arrays.
\<close>

definition heap_le :: "'a heap \<Rightarrow> 'a heap \<Rightarrow> bool" where
  "heap_le h h' =
     (prefix (feature_arrays h) (feature_arrays h') \<and> prefix (index_arrays h) (index_arrays h'))"

definition live :: "'a heap \<Rightarrow> GraphData_obj \<Rightarrow> bool" where
  "live h g =
     (node_features_id g < length (feature_arrays h)
      \<and> edge_index_id g < length (index_arrays h)
      \<and> (case edge_features_id g of None \<Rightarrow> True | Some i \<Rightarrow> i < length (feature_arrays h))
      \<and> (case graph_features_id g of None \<Rightarrow> True | Some i \<Rightarrow> i < length (feature_arrays h)))"

text \<open>The identities of the feature arrays of an object.\<close>

definition feature_ids :: "'z GraphData_obj_scheme \<Rightarrow> nat set" where
  "feature_ids g =
     {node_features_id g} \<union> set_option (edge_features_id g) \<union> set_option (graph_features_id g)"

text \<open>A heap holding the arrays of \<open>graph_a\<close> and \<open>graph_b\<close>, and the two objects.\<close>

definition heap_ab :: "int heap" where
  "heap_ab = \<lparr>feature_arrays = [node_features graph_a, the (edge_features graph_a),
                                  node_features graph_b, the (edge_features graph_b)],
              index_arrays = [edge_index graph_a, edge_index graph_b]\<rparr>"

definition obj_a :: GraphData_obj where
  "obj_a = \<lparr>node_features_id = 0, edge_index_id = 0, edge_features_id = Some 1,
            graph_features_id = None, num_nodes_of = 3, num_node_features_of = 1,
            num_edges_of = 2, num_edge_features_of = 1\<rparr>"

definition obj_b :: GraphData_obj where
  "obj_b = \<lparr>node_features_id = 2, edge_index_id = 1, edge_features_id = Some 3,
            graph_features_id = None, num_nodes_of = 2, num_node_features_of = 1,
            num_edges_of = 1, num_edge_features_of = 1\<rparr>"

(*DEFS-END*)

section \<open>The constructor of GraphData\<close>

lemmas init_defs = GraphData_init_def check_edge_index_def check_edge_features_def
  check_graph_features_def unpack_shape_def shape_at_def edge_features_width_def

text \<open>
  C2 (the code departs from it). The claim: constructing a graph from a valid node
  feature matrix and a valid 2 x E integer \<^verbatim>\<open>edge_index\<close>, with \<^verbatim>\<open>edge_features\<close> absent,
  succeeds. The code: at the class docstring's own example (5 nodes with 10 features,
  5 edges, no edge features) the constructor raises \<^verbatim>\<open>AttributeError\<close>, and with
  \<^verbatim>\<open>edge_features=None\<close> it raises whatever the other arguments are: line 85 guards the
  read of \<^verbatim>\<open>self.edge_features.shape[1]\<close> with \<^verbatim>\<open>self.node_features is not None\<close>.
\<close>

theorem GraphData_init_without_edge_features_raises:
  "GraphData_init (Ndarray (NDArray [5, 10] xs))
      (Ndarray (IntArray (NDArray [2, 5] [0, 1, 2, 2, 3, 1, 2, 3, 3, 4]))) PyNone PyNone
     = Inl (AttributeError ''NoneType object has no attribute shape'')
   \<and> isl (GraphData_init nf' ei' PyNone gf')"
  by (auto simp: init_defs
      split: py.splits anyarray.splits sum.splits list.splits prod.splits)

text \<open>
  C3 (as stated, false): a record is constructed from an \<^verbatim>\<open>edge_index\<close> whose entries 5
  and 7 are no nodes of a graph with one node.
\<close>

theorem GraphData_init_accepts_out_of_range_edge_index:
  "GraphData_init (Ndarray (NDArray [1, 1] [Num (0::int)]))
        (Ndarray (IntArray (NDArray [2, 1] [5, 7]))) (Ndarray (NDArray [1, 1] [Num 0])) PyNone
     = Inr \<lparr>node_features = NDArray [1, 1] [Num 0], edge_index = NDArray [2, 1] [5, 7],
            edge_features = Some (NDArray [1, 1] [Num 0]), graph_features = None,
            num_nodes = 1, num_node_features = 1, num_edges = 1, num_edge_features = 1\<rparr>
   \<and> \<not> edge_index_in_range
         \<lparr>node_features = NDArray [1, 1] [Num (0::int)], edge_index = NDArray [2, 1] [5, 7],
            edge_features = Some (NDArray [1, 1] [Num 0]), graph_features = None,
            num_nodes = 1, num_node_features = 1, num_edges = 1, num_edge_features = 1\<rparr>"
  by (simp add: init_defs edge_index_in_range_def)

text \<open>
  C3 (amended). The constructor checks the dtype and the shape of \<^verbatim>\<open>edge_index\<close> and
  never its entries: a constructed record holds the caller's \<^verbatim>\<open>edge_index\<close> as it was
  given, that array has at least two axes and exactly two rows, \<^verbatim>\<open>num_edges\<close> is its
  second dimension, and the construction succeeds in the same way with any other entries
  \<open>ys\<close> in an array of that shape. Whether the entries are node numbers is left to the
  caller.
\<close>

theorem GraphData_init_ignores_edge_index_entries:
  "GraphData_init nf' (Ndarray (IntArray (NDArray s xs))) ef' gf' = Inr g \<Longrightarrow>
   edge_index g = NDArray s xs \<and> 2 \<le> length s \<and> s ! 0 = 2 \<and> num_edges g = s ! 1 \<and>
   GraphData_init nf' (Ndarray (IntArray (NDArray s ys))) ef' gf'
     = Inr (g\<lparr>edge_index := NDArray s ys\<rparr>)"
  by (auto simp: init_defs
      split: py.splits anyarray.splits sum.splits list.splits prod.splits if_splits
        option.splits)

theorem GraphData_init_ignores_edge_index_entries_witness:
  "GraphData_init (Ndarray (NDArray [3, 1] [Num (0::int), Num 1, Num 2]))
        (Ndarray (IntArray (NDArray [2, 2] [0, 1, 1, 2])))
        (Ndarray (NDArray [2, 1] [Num 8, Num 9])) PyNone
     = Inr \<lparr>node_features = NDArray [3, 1] [Num 0, Num 1, Num 2],
            edge_index = NDArray [2, 2] [0, 1, 1, 2],
            edge_features = Some (NDArray [2, 1] [Num 8, Num 9]), graph_features = None,
            num_nodes = 3, num_node_features = 1, num_edges = 2, num_edge_features = 1\<rparr>
   \<and> GraphData_init (Ndarray (NDArray [3, 1] [Num (0::int), Num 1, Num 2]))
        (Ndarray (IntArray (NDArray [2, 2] [40, 41, 42, 43])))
        (Ndarray (NDArray [2, 1] [Num 8, Num 9])) PyNone
     = Inr \<lparr>node_features = NDArray [3, 1] [Num 0, Num 1, Num 2],
            edge_index = NDArray [2, 2] [40, 41, 42, 43],
            edge_features = Some (NDArray [2, 1] [Num 8, Num 9]), graph_features = None,
            num_nodes = 3, num_node_features = 1, num_edges = 2, num_edge_features = 1\<rparr>"
proof -
  have h: "GraphData_init (Ndarray (NDArray [3, 1] [Num (0::int), Num 1, Num 2]))
        (Ndarray (IntArray (NDArray [2, 2] [0, 1, 1, 2])))
        (Ndarray (NDArray [2, 1] [Num 8, Num 9])) PyNone
     = Inr \<lparr>node_features = NDArray [3, 1] [Num 0, Num 1, Num 2],
            edge_index = NDArray [2, 2] [0, 1, 1, 2],
            edge_features = Some (NDArray [2, 1] [Num 8, Num 9]), graph_features = None,
            num_nodes = 3, num_node_features = 1, num_edges = 2, num_edge_features = 1\<rparr>"
    by (simp add: init_defs)
  show ?thesis
    using h GraphData_init_ignores_edge_index_entries [OF h, of "[40, 41, 42, 43]"] by simp
qed

text \<open>
  C8. The constructor fails with a \<^verbatim>\<open>ValueError\<close> when \<^verbatim>\<open>edge_index\<close> is an array whose
  row count is not 2, and when \<^verbatim>\<open>edge_features\<close> is an array whose row count is not the
  column count of \<^verbatim>\<open>edge_index\<close>, whatever the other arguments are (an earlier check
  that fails is a \<^verbatim>\<open>ValueError\<close> too). When the earlier checks pass, the error is the
  one raised at line 66 and at line 72.
\<close>

theorem GraphData_init_shape_mismatch_raises:
  "(1 \<le> length (anyarray_shape ea) \<and> anyarray_shape ea ! 0 \<noteq> 2
      \<longrightarrow> is_ValueError (GraphData_init nf' (Ndarray ea) ef' gf'))
   \<and> (2 \<le> length (anyarray_shape ea) \<and> 1 \<le> length (shape ef)
        \<and> shape ef ! 0 \<noteq> anyarray_shape ea ! 1
      \<longrightarrow> is_ValueError (GraphData_init nf' (Ndarray ea) (Ndarray ef) gf'))
   \<and> (1 \<le> length (shape ei) \<and> shape ei ! 0 \<noteq> 2
      \<longrightarrow> GraphData_init (Ndarray nf) (Ndarray (IntArray ei)) ef' gf'
           = Inl (ValueError ''The shape of edge_index is [2, num_edges].''))
   \<and> (2 \<le> length (shape ei) \<and> shape ei ! 0 = 2 \<and> 1 \<le> length (shape ef)
        \<and> shape ef ! 0 \<noteq> shape ei ! 1
      \<longrightarrow> GraphData_init (Ndarray nf) (Ndarray (IntArray ei)) (Ndarray ef) gf'
           = Inl (ValueError ''The first dimension of edge_features must be the                     same as the second dimension of edge_index.''))"
  by (auto simp: init_defs
      split: py.splits anyarray.splits sum.splits list.splits prod.splits)

theorem GraphData_init_shape_mismatch_raises_witness:
  "is_ValueError (GraphData_init (Ndarray (NDArray [1, 1] [Num (0::int)]))
        (Ndarray (IntArray (NDArray [3, 1] [0, 0, 0]))) (Ndarray (NDArray [1, 1] [Num 0])) PyNone)
   \<and> is_ValueError (GraphData_init (Ndarray (NDArray [1, 1] [Num (0::int)]))
        (Ndarray (IntArray (NDArray [2, 1] [0, 0]))) (Ndarray (NDArray [2, 1] [Num 0, Num 0])) PyNone)
   \<and> GraphData_init (Ndarray (NDArray [1, 1] [Num (0::int)]))
        (Ndarray (IntArray (NDArray [3, 1] [0, 0, 0]))) (Ndarray (NDArray [1, 1] [Num 0])) PyNone
        = Inl (ValueError ''The shape of edge_index is [2, num_edges].'')
   \<and> GraphData_init (Ndarray (NDArray [1, 1] [Num (0::int)]))
        (Ndarray (IntArray (NDArray [2, 1] [0, 0]))) (Ndarray (NDArray [2, 1] [Num 0, Num 0])) PyNone
        = Inl (ValueError ''The first dimension of edge_features must be the                     same as the second dimension of edge_index.'')"
  using GraphData_init_shape_mismatch_raises
          [of "IntArray (NDArray [3, 1] [0, 0, 0])" "Ndarray (NDArray [1, 1] [Num (0::int)])"
              "Ndarray (NDArray [1, 1] [Num 0])" PyNone "NDArray [1, 1] [Num 0]"
              "NDArray [3, 1] [0, 0, 0]" "NDArray [1, 1] [Num 0]"]
        GraphData_init_shape_mismatch_raises
          [of "IntArray (NDArray [2, 1] [0, 0])" "Ndarray (NDArray [1, 1] [Num (0::int)])"
              "Ndarray (NDArray [1, 1] [Num 0])" PyNone "NDArray [2, 1] [Num 0, Num 0]"
              "NDArray [2, 1] [0, 0]" "NDArray [1, 1] [Num 0]"]
  by simp

subsection \<open>What a constructed record satisfies\<close>

lemma is_GraphDataD:
  assumes "is_GraphData g"
  shows "shape (node_features g) = [num_nodes g, num_node_features g]"
    and "2 \<le> length (shape (edge_index g))"
    and "shape (edge_index g) ! 0 = 2"
    and "num_edges g = shape (edge_index g) ! 1"
    and "\<exists>ef. edge_features g = Some ef \<and> 2 \<le> length (shape ef)
           \<and> shape ef ! 0 = num_edges g \<and> num_edge_features g = shape ef ! 1"
  using assms unfolding is_GraphData_def
  by (cases g; cases "edge_features g"; cases "graph_features g";
      auto simp: init_defs
      split: sum.splits list.splits prod.splits if_splits option.splits)+

lemma GraphData_init_is_GraphData:
  "GraphData_init nf' ei' ef' gf' = Inr g \<Longrightarrow> is_GraphData g"
  unfolding is_GraphData_def
  by (auto simp: init_defs
      split: py.splits anyarray.splits sum.splits list.splits prod.splits if_splits
        option.splits)

lemma GraphData_init_option_InrD:
  assumes "GraphData_init (Ndarray nf) (Ndarray (IntArray ei)) (py_of_option ef) (py_of_option gf)
             = Inr g"
  shows "\<exists>efa. ef = Some efa
    \<and> node_features g = nf \<and> edge_index g = ei \<and> edge_features g = Some efa
    \<and> graph_features g = gf
    \<and> shape nf = [num_nodes g, num_node_features g]
    \<and> 2 \<le> length (shape ei) \<and> shape ei ! 0 = 2 \<and> num_edges g = shape ei ! 1
    \<and> 2 \<le> length (shape efa) \<and> shape efa ! 0 = num_edges g
    \<and> num_edge_features g = shape efa ! 1"
  using assms
  by (cases ef; cases gf)
     (auto simp: init_defs split: sum.splits list.splits prod.splits if_splits)

section \<open>Concatenation of arrays\<close>

lemma check_shapes_Inr:
  "(check_shapes s axis bs = Inr u) =
     list_all (\<lambda>b. length (shape b) = length s \<and> take axis (shape b) = take axis s
                  \<and> drop (Suc axis) (shape b) = drop (Suc axis) s) bs"
  by (induction bs) auto

lemma concatenate_InrD:
  assumes "concatenate arrs axis = Inr r"
  shows "arrs \<noteq> []" and "axis < length (shape (hd arrs))"
    and "shape r = take axis (shape (hd arrs)) @ [sum_list (map (\<lambda>b. shape b ! axis) arrs)]
                      @ drop (Suc axis) (shape (hd arrs))"
    and "items r = concat (map (\<lambda>k. concat (map (block axis k) arrs))
                      [0 ..< prod_list (take axis (shape (hd arrs)))])"
    and "list_all (\<lambda>b. length (shape b) = length (shape (hd arrs))
                  \<and> take axis (shape b) = take axis (shape (hd arrs))
                  \<and> drop (Suc axis) (shape b) = drop (Suc axis) (shape (hd arrs))) arrs"
  using assms
  by (auto simp: concatenate_def check_shapes_Inr split: list.splits if_splits sum.splits)

lemma atleast_1d_id: "shape a \<noteq> [] \<Longrightarrow> atleast_1d a = a"
  by (cases "shape a") (simp_all add: atleast_1d_def)

lemma atleast_2d_id: "2 \<le> length (shape a) \<Longrightarrow> atleast_2d a = a"
  by (cases a) (auto simp: atleast_2d_def split: list.splits)

section \<open>The constructor of BatchGraphData\<close>

text \<open>
  C10. Batching the empty sequence raises and returns no record: the first statement,
  the stacking of the node features, already fails on an empty list (\<^verbatim>\<open>np.vstack\<close> needs
  an array), and so would the probe \<^verbatim>\<open>graphs[0]\<close> of the next one.
\<close>

theorem BatchGraphData_init_empty_raises:
  "BatchGraphData_init [] = Inl (ValueError ''need at least one array to concatenate'')
   \<and> vstack [] = Inl (ValueError ''need at least one array to concatenate'')
   \<and> first_graph [] = Inl (IndexError ''list index out of range'')"
  by (simp add: BatchGraphData_init_def vstack_def concatenate_def first_graph_def)

subsection \<open>What a returned batch satisfies\<close>

lemma map_snd_zip_prev: "map snd (zip (prev_num_nodes graphs) graphs) = graphs"
  by (simp add: prev_num_nodes_def map_snd_zip_take)

lemma BatchGraphData_init_InrD:
  assumes "BatchGraphData_init graphs = Inr b"
  shows "\<exists>bnf bef bgf bei.
      vstack (map node_features graphs) = Inr bnf
    \<and> stack_if_present edge_features graphs = Inr (Some bef)
    \<and> stack_if_present graph_features graphs = Inr bgf
    \<and> batch_edge_index graphs = Inr bei
    \<and> np_array_int (graph_index_list graphs) = Inr (graph_index b)
    \<and> node_features b = bnf \<and> edge_index b = bei \<and> edge_features b = Some bef
    \<and> graph_features b = bgf
    \<and> shape bnf = [num_nodes b, num_node_features b]
    \<and> 2 \<le> length (shape bei) \<and> shape bei ! 0 = 2 \<and> num_edges b = shape bei ! 1
    \<and> 2 \<le> length (shape bef) \<and> shape bef ! 0 = num_edges b
    \<and> num_edge_features b = shape bef ! 1"
  using assms unfolding BatchGraphData_init_def
  by (auto split: sum.splits dest!: GraphData_init_option_InrD)

subsection \<open>Shapes of the stacked arrays\<close>

lemma atleast_1d_id2: "2 \<le> length (shape a) \<Longrightarrow> atleast_1d a = a"
  by (cases "shape a") (simp_all add: atleast_1d_def)

lemma map_atleast_2d_id:
  "list_all (\<lambda>a. 2 \<le> length (shape a)) arrs \<Longrightarrow> map atleast_2d arrs = arrs"
  by (induction arrs) (simp_all add: atleast_2d_id)

lemma map_atleast_1d_id:
  "list_all (\<lambda>a. 2 \<le> length (shape a)) arrs \<Longrightarrow> map atleast_1d arrs = arrs"
  by (induction arrs) (simp_all add: atleast_1d_id2)

lemma vstack_rows:
  assumes "vstack arrs = Inr r" and "list_all (\<lambda>a. 2 \<le> length (shape a)) arrs"
  shows "shape r ! 0 = sum_list (map (\<lambda>a. shape a ! 0) arrs)"
  using concatenate_InrD(3) [of arrs 0 r] assms
  by (simp add: vstack_def map_atleast_2d_id)

lemma hstack_concatenate:
  assumes "list_all (\<lambda>a. 2 \<le> length (shape a)) arrs"
  shows "hstack arrs = concatenate arrs 1"
  using assms
  by (cases arrs) (auto simp: hstack_def map_atleast_1d_id atleast_1d_id2 Let_def)

lemma hstack_columns:
  assumes "hstack arrs = Inr r" and "list_all (\<lambda>a. 2 \<le> length (shape a)) arrs"
  shows "shape r ! 1 = sum_list (map (\<lambda>a. shape a ! 1) arrs)"
proof -
  have c: "concatenate arrs 1 = Inr r"
    using assms by (simp add: hstack_concatenate)
  have "shape (hd arrs) \<noteq> []"
    using concatenate_InrD(2) [OF c] by auto
  then have "length (take 1 (shape (hd arrs))) = 1"
    by (cases "shape (hd arrs)") simp_all
  then show ?thesis
    using concatenate_InrD(3) [OF c] by (simp add: nth_append)
qed

lemma map_shape_shifted: "map shape (shifted graphs) = map (\<lambda>g. shape (edge_index g)) graphs"
proof -
  have "map shape (shifted graphs)
      = map (\<lambda>g. shape (edge_index g)) (map snd (zip (prev_num_nodes graphs) graphs))"
    by (simp add: shifted_def add_scalar_def case_prod_unfold comp_def)
  then show ?thesis by (simp add: map_snd_zip_prev)
qed

lemma list_all_shifted:
  assumes "list_all is_GraphData graphs"
  shows "list_all (\<lambda>a. 2 \<le> length (shape a)) (shifted graphs)"
proof -
  have "list_all (\<lambda>s. 2 \<le> length s) (map (\<lambda>g. shape (edge_index g)) graphs)"
    using assms by (auto simp: list_all_iff is_GraphDataD(2))
  then have "list_all (\<lambda>s. 2 \<le> length s) (map shape (shifted graphs))"
    by (simp add: map_shape_shifted)
  then show ?thesis by (simp add: list_all_iff)
qed

lemma batch_edge_index_InrD:
  assumes "batch_edge_index graphs = Inr bei"
  shows "\<exists>r. hstack (shifted graphs) = Inr r \<and> shape bei = shape r \<and> items bei = items r"
  using assms by (auto simp: batch_edge_index_def astype_int_def split: sum.splits)

lemmas batch_defs = BatchGraphData_init_def vstack_def hstack_def concatenate_def
  atleast_1d_def atleast_2d_def block_def stack_if_present_def first_graph_def
  batch_edge_index_def shifted_def prev_num_nodes_def add_scalar_def astype_int_def
  graph_index_list_def np_array_int_def enumerate_eq_zip

lemma batch_counts:
  assumes "list_all is_GraphData graphs" and "BatchGraphData_init graphs = Inr b"
  shows "num_nodes b = sum_list (map num_nodes graphs)
       \<and> num_edges b = sum_list (map num_edges graphs)"
proof -
  obtain nfs bei where
    hv: "vstack (map node_features graphs) = Inr nfs" and
    he: "batch_edge_index graphs = Inr bei" and
    hn: "shape nfs = [num_nodes b, num_node_features b]" and
    hm: "num_edges b = shape bei ! 1"
    using BatchGraphData_init_InrD [OF assms(2)] by blast
  have "list_all (\<lambda>a. 2 \<le> length (shape a)) (map node_features graphs)"
    using assms(1) by (auto simp: list_all_iff is_GraphDataD(1))
  from vstack_rows [OF hv this]
  have "shape nfs ! 0 = sum_list (map (\<lambda>g. shape (node_features g) ! 0) graphs)"
    by (simp add: comp_def)
  also have "\<dots> = sum_list (map num_nodes graphs)"
    using assms(1)
    by (intro arg_cong [where f = sum_list] map_cong)
       (auto simp: list_all_iff is_GraphDataD(1))
  finally have nodes: "num_nodes b = sum_list (map num_nodes graphs)"
    using hn by simp
  obtain r where hh: "hstack (shifted graphs) = Inr r" and hs: "shape bei = shape r"
    using batch_edge_index_InrD [OF he] by blast
  from hstack_columns [OF hh list_all_shifted [OF assms(1)]]
  have "shape r ! 1 = sum_list (map (\<lambda>s. s ! 1) (map shape (shifted graphs)))"
    by (simp add: comp_def)
  also have "\<dots> = sum_list (map (\<lambda>g. shape (edge_index g) ! 1) graphs)"
    by (simp add: map_shape_shifted comp_def)
  also have "\<dots> = sum_list (map num_edges graphs)"
    using assms(1)
    by (intro arg_cong [where f = sum_list] map_cong)
       (auto simp: list_all_iff is_GraphDataD(4))
  finally have "num_edges b = sum_list (map num_edges graphs)"
    using hm hs by simp
  with nodes show ?thesis by simp
qed

subsection \<open>Evaluating the constructors on the examples\<close>

lemma replicate_numeral_Cons: "replicate (numeral k) x = x # replicate (pred_numeral k) x"
  by (simp add: numeral_eq_Suc)

lemma list_all_replicate: "list_all P (replicate n x) = (n = 0 \<or> P x)"
  by (induction n) auto

lemmas eval_simps = replicate_numeral_Cons list_all_replicate upt_rec

lemma examples_are_GraphData: "is_GraphData graph_a" "is_GraphData graph_b"
  by (simp_all add: is_GraphData_def init_defs graph_a_def graph_b_def)

lemma batch_a_b:
  "BatchGraphData_init [graph_a, graph_b]
     = Inr \<lparr>node_features = NDArray [5, 1] [Num 0, Num 1, Num 2, Num 3, Num 4],
            edge_index = NDArray [2, 3] [0, 1, 3, 1, 2, 4],
            edge_features = Some (NDArray [3, 1] [Num 8, Num 9, Num 7]),
            graph_features = None,
            num_nodes = 5, num_node_features = 1, num_edges = 3, num_edge_features = 1,
            graph_index = NDArray [5] [0, 0, 0, 1, 1]\<rparr>"
  by (simp add: batch_defs init_defs graph_a_def graph_b_def eval_simps)

section \<open>Node and edge counts of a batch\<close>

text \<open>
  C7. When every graph of the sequence is a constructed \<^verbatim>\<open>GraphData\<close> and the batching
  returns a record, the record's \<^verbatim>\<open>num_nodes\<close> is the sum of the graphs' \<^verbatim>\<open>num_nodes\<close>
  and its \<^verbatim>\<open>num_edges\<close> the sum of their \<^verbatim>\<open>num_edges\<close>.
\<close>

theorem batch_preserves_counts:
  assumes "list_all is_GraphData graphs" and "BatchGraphData_init graphs = Inr b"
  shows "num_nodes b = sum_list (map num_nodes graphs)
       \<and> num_edges b = sum_list (map num_edges graphs)"
  using assms by (rule batch_counts)

theorem batch_preserves_counts_witness:
  "list_all is_GraphData [graph_a, graph_b]
   \<and> BatchGraphData_init [graph_a, graph_b]
     = Inr \<lparr>node_features = NDArray [5, 1] [Num 0, Num 1, Num 2, Num 3, Num 4],
            edge_index = NDArray [2, 3] [0, 1, 3, 1, 2, 4],
            edge_features = Some (NDArray [3, 1] [Num 8, Num 9, Num 7]),
            graph_features = None,
            num_nodes = 5, num_node_features = 1, num_edges = 3, num_edge_features = 1,
            graph_index = NDArray [5] [0, 0, 0, 1, 1]\<rparr>
   \<and> (5::nat) = sum_list (map num_nodes [graph_a, graph_b])
   \<and> (3::nat) = sum_list (map num_edges [graph_a, graph_b])"
proof -
  have h: "list_all is_GraphData [graph_a, graph_b]"
    by (simp add: examples_are_GraphData)
  show ?thesis
    using h batch_a_b batch_preserves_counts [OF h batch_a_b] by simp
qed

section \<open>The offsets of the batched edge index\<close>

lemma batch_two_graphs:
  assumes "is_GraphData g0" and "is_GraphData g1"
    and "num_nodes g0 = 3" and "edge_index g0 = NDArray [2, 2] [0, 1, 1, 2]"
    and "num_nodes g1 = 2" and "edge_index g1 = NDArray [2, 1] [0, 1]"
    and "BatchGraphData_init [g0, g1] = Inr b"
  shows "num_nodes b = 5 \<and> edge_index b = NDArray [2, 3] [0, 1, 3, 1, 2, 4]
       \<and> graph_index b = NDArray [5] [0, 0, 0, 1, 1]"
proof -
  have n: "num_nodes b = 5"
    using batch_counts [of "[g0, g1]" b] assms by simp
  obtain bei where he: "batch_edge_index [g0, g1] = Inr bei" and hb: "edge_index b = bei"
    and hg: "np_array_int (graph_index_list [g0, g1]) = Inr (graph_index b)"
    using BatchGraphData_init_InrD [OF assms(7)] by blast
  have e: "edge_index b = NDArray [2, 3] [0, 1, 3, 1, 2, 4]"
    using he hb assms(3-6)
    by (auto simp: batch_edge_index_def shifted_def prev_num_nodes_def hstack_def
        concatenate_def atleast_1d_def block_def add_scalar_def astype_int_def eval_simps)
  have "np_array_int (graph_index_list [g0, g1]) = Inr (NDArray [5] [0, 0, 0, 1, 1])"
    using assms(3,5)
    by (simp add: graph_index_list_def np_array_int_def enumerate_eq_zip eval_simps)
  with hg have g: "graph_index b = NDArray [5] [0, 0, 0, 1, 1]"
    by simp
  from n e g show ?thesis by simp
qed

lemma batch_two_graphs_succeeds:
  assumes "is_GraphData g0" and "is_GraphData g1"
    and "num_nodes g0 = 3" and "edge_index g0 = NDArray [2, 2] [0, 1, 1, 2]"
    and "num_nodes g1 = 2" and "edge_index g1 = NDArray [2, 1] [0, 1]"
    and "num_node_features g0 = num_node_features g1"
    and "tl (shape (the (edge_features g0))) = tl (shape (the (edge_features g1)))"
    and "graph_features g0 = None"
  shows "\<exists>b. BatchGraphData_init [g0, g1] = Inr b"
proof -
  obtain ef0 where e0: "edge_features g0 = Some ef0" "2 \<le> length (shape ef0)"
     "shape ef0 ! 0 = num_edges g0"
    using is_GraphDataD(5) [OF assms(1)] by blast
  obtain ef1 where e1: "edge_features g1 = Some ef1" "2 \<le> length (shape ef1)"
     "shape ef1 ! 0 = num_edges g1"
    using is_GraphDataD(5) [OF assms(2)] by blast
  obtain x0 y0 r0 where s0: "shape ef0 = x0 # y0 # r0"
    using e0(2) by (cases "shape ef0" rule: list.exhaust; cases "tl (shape ef0)"; auto)
  obtain x1 y1 r1 where s1: "shape ef1 = x1 # y1 # r1"
    using e1(2) by (cases "shape ef1" rule: list.exhaust; cases "tl (shape ef1)"; auto)
  have m0: "num_edges g0 = 2" using is_GraphDataD(4) [OF assms(1)] assms(4) by simp
  have m1: "num_edges g1 = 1" using is_GraphDataD(4) [OF assms(2)] assms(6) by simp
  show ?thesis
    using assms(3-9) e0 e1 s0 s1 m0 m1
      is_GraphDataD(1) [OF assms(1)] is_GraphDataD(1) [OF assms(2)]
    by (simp add: batch_defs init_defs eval_simps)
qed

text \<open>
  C6. Let \<open>g0\<close> be a constructed graph with 3 nodes and \<^verbatim>\<open>edge_index\<close> \<open>[[0, 1], [1, 2]]\<close>
  and \<open>g1\<close> one with 2 nodes and \<^verbatim>\<open>edge_index\<close> \<open>[[0], [1]]\<close>, whatever their features.
  Every record that batching \<open>[g0, g1]\<close> returns has 5 nodes, the \<^verbatim>\<open>edge_index\<close>
  \<open>[[0, 1, 3], [1, 2, 4]]\<close> and the \<^verbatim>\<open>graph_index\<close> \<open>[0, 0, 0, 1, 1]\<close>; and batching does
  return a record when the two graphs have the same number of node features, edge
  features of the same shape after the first axis, and \<open>g0\<close> has no graph features.
\<close>

theorem batch_two_graphs_example:
  assumes "is_GraphData g0" and "is_GraphData g1"
    and "num_nodes g0 = 3" and "edge_index g0 = NDArray [2, 2] [0, 1, 1, 2]"
    and "num_nodes g1 = 2" and "edge_index g1 = NDArray [2, 1] [0, 1]"
  shows "(\<forall>b. BatchGraphData_init [g0, g1] = Inr b \<longrightarrow>
            num_nodes b = 5 \<and> edge_index b = NDArray [2, 3] [0, 1, 3, 1, 2, 4]
          \<and> graph_index b = NDArray [5] [0, 0, 0, 1, 1])
       \<and> (num_node_features g0 = num_node_features g1
          \<and> tl (shape (the (edge_features g0))) = tl (shape (the (edge_features g1)))
          \<and> graph_features g0 = None
          \<longrightarrow> (\<exists>b. BatchGraphData_init [g0, g1] = Inr b))"
  using batch_two_graphs [OF assms] batch_two_graphs_succeeds [OF assms] by blast

theorem batch_two_graphs_example_witness:
  "is_GraphData graph_a \<and> is_GraphData graph_b
   \<and> num_nodes graph_a = 3 \<and> edge_index graph_a = NDArray [2, 2] [0, 1, 1, 2]
   \<and> num_nodes graph_b = 2 \<and> edge_index graph_b = NDArray [2, 1] [0, 1]
   \<and> num_node_features graph_a = num_node_features graph_b
   \<and> tl (shape (the (edge_features graph_a))) = tl (shape (the (edge_features graph_b)))
   \<and> graph_features graph_a = None
   \<and> BatchGraphData_init [graph_a, graph_b]
     = Inr \<lparr>node_features = NDArray [5, 1] [Num 0, Num 1, Num 2, Num 3, Num 4],
            edge_index = NDArray [2, 3] [0, 1, 3, 1, 2, 4],
            edge_features = Some (NDArray [3, 1] [Num 8, Num 9, Num 7]),
            graph_features = None,
            num_nodes = 5, num_node_features = 1, num_edges = 3, num_edge_features = 1,
            graph_index = NDArray [5] [0, 0, 0, 1, 1]\<rparr>"
proof -
  have h: "num_nodes graph_a = 3" "edge_index graph_a = NDArray [2, 2] [0, 1, 1, 2]"
    "num_nodes graph_b = 2" "edge_index graph_b = NDArray [2, 1] [0, 1]"
    by (simp_all add: graph_a_def graph_b_def)
  have c: "num_node_features graph_a = num_node_features graph_b"
    "tl (shape (the (edge_features graph_a))) = tl (shape (the (edge_features graph_b)))"
    "graph_features graph_a = None"
    by (simp_all add: graph_a_def graph_b_def)
  show ?thesis
    using batch_two_graphs_example [OF examples_are_GraphData h] examples_are_GraphData h c
      batch_a_b
    by simp
qed

text \<open>
  C1 (the code departs from it). The claim: the \<^verbatim>\<open>edge_index\<close> of graph \<open>i\<close> is offset by
  the sum of the node counts of the graphs before it. The code offsets it by the node
  count of graph \<open>i - 1\<close> alone (\<^verbatim>\<open>[0] + num_nodes_list[:-1]\<close>), which is that sum only
  for the first two graphs. For the three graphs \<open>graph_a\<close>, \<open>graph_b\<close>, \<open>graph_b\<close> with 3,
  2 and 2 nodes the code's offsets are 0, 3, 2 where the claim's are 0, 3, 5: the edge
  \<open>0 \<rightarrow> 1\<close> of the third graph becomes \<open>2 \<rightarrow> 3\<close> in the batch, from a node of the first
  graph to a node of the second (\<^verbatim>\<open>graph_index\<close> 0 and 1), and not \<open>5 \<rightarrow> 6\<close>.
\<close>

theorem batch_third_graph_offset:
  "BatchGraphData_init [graph_a, graph_b, graph_b]
     = Inr \<lparr>node_features = NDArray [7, 1] [Num 0, Num 1, Num 2, Num 3, Num 4, Num 3, Num 4],
            edge_index = NDArray [2, 4] [0, 1, 3, 2, 1, 2, 4, 3],
            edge_features = Some (NDArray [4, 1] [Num 8, Num 9, Num 7, Num 7]),
            graph_features = None,
            num_nodes = 7, num_node_features = 1, num_edges = 4, num_edge_features = 1,
            graph_index = NDArray [7] [0, 0, 0, 1, 1, 2, 2]\<rparr>
  \<and> prev_num_nodes [graph_a, graph_b, graph_b] = [0, 3, 2]
  \<and> spec_offsets [graph_a, graph_b, graph_b] = [0, 3, 5]"
  by (simp add: batch_defs init_defs graph_a_def graph_b_def eval_simps spec_offsets_def)

section \<open>Batching a single graph\<close>

lemma concat_blocks:
  "concat (map (\<lambda>k. take c (drop (k * c) xs)) [0 ..< n]) = take (n * c) xs"
proof (induction n)
  case 0
  then show ?case by simp
next
  case (Suc n)
  have "take (n * c + c) xs = take (n * c) xs @ take c (drop (n * c) xs)"
    by (simp add: take_add)
  with Suc show ?case by (simp add: add.commute)
qed

lemma prod_list_take_drop: "prod_list (take n s) * prod_list (drop n s) = prod_list s"
  by (metis append_take_drop_id prod_list.append)

lemma concatenate_single:
  assumes "axis < length (shape a)" and "wf_array a"
  shows "concatenate [a] axis = Inr a"
proof -
  have s: "take axis (shape a) @ [shape a ! axis] @ drop (Suc axis) (shape a) = shape a"
    using assms(1) by (simp add: id_take_nth_drop [symmetric])
  have "concat (map (\<lambda>k. concat (map (block axis k) [a])) [0 ..< prod_list (take axis (shape a))])
      = concat (map (\<lambda>k. take (prod_list (drop axis (shape a)))
                  (drop (k * prod_list (drop axis (shape a))) (items a)))
           [0 ..< prod_list (take axis (shape a))])"
    by (simp add: block_def Let_def)
  also have "\<dots> = take (prod_list (take axis (shape a)) * prod_list (drop axis (shape a))) (items a)"
    by (rule concat_blocks)
  also have "\<dots> = items a"
    using assms(2) by (simp add: prod_list_take_drop wf_array_def)
  finally have i: "concat (map (\<lambda>k. concat (map (block axis k) [a]))
      [0 ..< prod_list (take axis (shape a))]) = items a" .
  have ne: "shape a \<noteq> []" using assms(1) by auto
  show ?thesis
    unfolding concatenate_def using assms(1) ne i s
    by (cases a) (simp add: not_le)
qed

lemma wf_atleast_2d: "wf_array a \<Longrightarrow> wf_array (atleast_2d a)"
  by (auto simp: wf_array_def atleast_2d_def split: list.splits)

lemma rank_atleast_2d: "2 \<le> length (shape (atleast_2d a))"
  by (auto simp: atleast_2d_def split: list.splits)

lemma vstack_single:
  assumes "wf_array a"
  shows "vstack [a] = Inr (atleast_2d a)"
proof -
  have "0 < length (shape (atleast_2d a))"
    using rank_atleast_2d [of a] by auto
  then show ?thesis
    using assms by (simp add: vstack_def concatenate_single wf_atleast_2d)
qed

lemma hstack_single:
  assumes "2 \<le> length (shape a)" and "wf_array a"
  shows "hstack [a] = Inr a"
  using assms by (simp add: hstack_concatenate concatenate_single)

lemma add_scalar_0: "add_scalar a 0 = a"
  by (cases a) (simp add: add_scalar_def)

lemma astype_int_id: "astype_int a = a"
  by (cases a) (simp add: astype_int_def)

lemma graph_index_list_single: "graph_index_list [g] = replicate (num_nodes g) 0"
  by (simp add: graph_index_list_def enumerate_eq_zip upt_rec)

lemma batch_single:
  assumes "is_GraphData g" and "wf_GraphData g"
  shows "BatchGraphData_init [g] =
      Inr \<lparr>node_features = node_features g, edge_index = edge_index g,
           edge_features = edge_features g,
           graph_features = map_option atleast_2d (graph_features g),
           num_nodes = num_nodes g, num_node_features = num_node_features g,
           num_edges = num_edges g, num_edge_features = num_edge_features g,
           graph_index = NDArray [num_nodes g] (replicate (num_nodes g) 0)\<rparr>"
proof -
  obtain ef where e: "edge_features g = Some ef" "2 \<le> length (shape ef)"
     "shape ef ! 0 = num_edges g" "num_edge_features g = shape ef ! 1"
    using is_GraphDataD(5) [OF assms(1)] by blast
  have w: "wf_array (node_features g)" "wf_array (edge_index g)" "wf_array ef"
    using assms(2) e(1) by (simp_all add: wf_GraphData_def)
  have n: "vstack [node_features g] = Inr (node_features g)"
    using w(1) is_GraphDataD(1) [OF assms(1)] by (simp add: vstack_single atleast_2d_id)
  have f: "vstack [ef] = Inr ef"
    using w(3) e(2) by (simp add: vstack_single atleast_2d_id)
  have h: "batch_edge_index [g] = Inr (edge_index g)"
    using w(2) is_GraphDataD(2) [OF assms(1)]
    by (simp add: batch_edge_index_def shifted_def prev_num_nodes_def add_scalar_0
        hstack_single astype_int_id)
  have i: "np_array_int (graph_index_list [g])
             = Inr (NDArray [num_nodes g] (replicate (num_nodes g) 0))"
    by (simp add: graph_index_list_single np_array_int_def list_all_replicate)
  have gf: "stack_if_present graph_features [g] = Inr (map_option atleast_2d (graph_features g))"
    using assms(2)
    by (cases "graph_features g")
       (simp_all add: stack_if_present_def first_graph_def vstack_single wf_GraphData_def)
  have efs: "stack_if_present edge_features [g] = Inr (Some ef)"
    using e(1) f by (simp add: stack_if_present_def first_graph_def)
  show ?thesis
    unfolding BatchGraphData_init_def
    using n efs gf h i e is_GraphDataD(1-4) [OF assms(1)]
    by (cases "graph_features g") (auto simp: init_defs)
qed

text \<open>
  C5 (as stated, false): batching \<open>[graph_c]\<close>, whose graph features are the vector
  \<open>[5, 6]\<close> of shape \<open>(2)\<close>, returns a record whose graph features are the matrix
  \<open>[[5, 6]]\<close> of shape \<open>(1, 2)\<close>, which is not the graph's field.
\<close>

theorem batch_single_graph_features_differ:
  "BatchGraphData_init [graph_c]
     = Inr \<lparr>node_features = NDArray [2, 1] [Num 3, Num 4],
            edge_index = NDArray [2, 1] [0, 1],
            edge_features = Some (NDArray [1, 1] [Num 7]),
            graph_features = Some (NDArray [1, 2] [Num 5, Num 6]),
            num_nodes = 2, num_node_features = 1, num_edges = 1, num_edge_features = 1,
            graph_index = NDArray [2] [0, 0]\<rparr>
   \<and> Some (NDArray [1, 2] [Num 5, Num 6]) \<noteq> graph_features graph_c"
  by (simp add: batch_defs init_defs graph_c_def eval_simps)

text \<open>
  C5 (amended). Batching \<open>[g]\<close> for a constructed graph \<open>g\<close> returns a record whose
  \<^verbatim>\<open>node_features\<close>, \<^verbatim>\<open>edge_index\<close> and \<^verbatim>\<open>edge_features\<close> are \<open>g\<close>'s, whose counts are
  \<open>g\<close>'s, and whose \<^verbatim>\<open>graph_index\<close> is \<^verbatim>\<open>num_nodes\<close> zeros. Its \<^verbatim>\<open>graph_features\<close> are
  \<open>g\<close>'s as \<^verbatim>\<open>np.atleast_2d\<close> gives them: absent when \<open>g\<close> has none, \<open>g\<close>'s own array when
  that has two axes or more, and a matrix of one row holding \<open>g\<close>'s vector otherwise.
\<close>

theorem batch_single_graph:
  assumes "is_GraphData g" and "wf_GraphData g"
  shows "BatchGraphData_init [g] =
      Inr \<lparr>node_features = node_features g, edge_index = edge_index g,
           edge_features = edge_features g,
           graph_features = map_option atleast_2d (graph_features g),
           num_nodes = num_nodes g, num_node_features = num_node_features g,
           num_edges = num_edges g, num_edge_features = num_edge_features g,
           graph_index = NDArray [num_nodes g] (replicate (num_nodes g) 0)\<rparr>
    \<and> (\<forall>a. graph_features g = Some a \<longrightarrow> 2 \<le> length (shape a) \<longrightarrow>
          map_option atleast_2d (graph_features g) = graph_features g)
    \<and> (\<forall>a n. graph_features g = Some a \<longrightarrow> shape a = [n] \<longrightarrow>
          map_option atleast_2d (graph_features g) = Some (NDArray [1, n] (items a)))"
  using batch_single [OF assms] by (auto simp: atleast_2d_id) (simp add: atleast_2d_def)

theorem batch_single_graph_witness:
  "is_GraphData graph_c \<and> wf_GraphData graph_c
   \<and> BatchGraphData_init [graph_c]
     = Inr \<lparr>node_features = NDArray [2, 1] [Num 3, Num 4],
            edge_index = NDArray [2, 1] [0, 1],
            edge_features = Some (NDArray [1, 1] [Num 7]),
            graph_features = Some (NDArray [1, 2] [Num 5, Num 6]),
            num_nodes = 2, num_node_features = 1, num_edges = 1, num_edge_features = 1,
            graph_index = NDArray [2] [0, 0]\<rparr>"
proof -
  have h: "is_GraphData graph_c"
    by (simp add: is_GraphData_def init_defs graph_c_def)
  have w: "wf_GraphData graph_c"
    by (simp add: wf_GraphData_def wf_array_def graph_c_def)
  show ?thesis
    using h w batch_single_graph [OF h w]
    by (simp add: graph_c_def atleast_2d_def eval_simps)
qed

section \<open>The graph index of a batch\<close>

lemma graph_index_loop_concat:
  "graph_index_loop ps acc = acc @ concat (map (\<lambda>(i, n). replicate n i) ps)"
  by (induction ps arbitrary: acc) auto

lemma graph_index_list_blocks: "graph_index_list graphs = blocks 0 (map num_nodes graphs)"
  by (simp add: graph_index_list_def graph_index_loop_concat blocks_def)

lemma blocks_Nil [simp]: "blocks k [] = []"
  by (simp add: blocks_def)

lemma blocks_Cons [simp]: "blocks k (n # ns) = replicate n k @ blocks (Suc k) ns"
  by (simp add: blocks_def)

lemma length_blocks: "length (blocks k ns) = sum_list ns"
  by (induction ns arbitrary: k) auto

lemma set_blocks: "set (blocks k ns) = {k + i | i. i < length ns \<and> 0 < ns ! i}"
proof (induction ns arbitrary: k)
  case Nil
  then show ?case by simp
next
  case (Cons n ns)
  have "{k + i | i. i < length (n # ns) \<and> 0 < (n # ns) ! i}
      = (if 0 < n then {k} else {}) \<union> {Suc k + i | i. i < length ns \<and> 0 < ns ! i}"
    (is "?L = ?R")
  proof (intro set_eqI iffI)
    fix x assume "x \<in> ?L"
    then obtain i where i: "x = k + i" "i < length (n # ns)" "0 < (n # ns) ! i" by blast
    show "x \<in> ?R"
    proof (cases i)
      case 0
      with i show ?thesis by auto
    next
      case (Suc j)
      with i have "x = Suc k + j \<and> j < length ns \<and> 0 < ns ! j" by simp
      then show ?thesis by blast
    qed
  next
    fix x assume "x \<in> ?R"
    then consider "0 < n" "x = k" | j where "x = Suc k + j" "j < length ns" "0 < ns ! j"
      by (auto split: if_splits)
    then show "x \<in> ?L"
    proof cases
      case 1
      then have "x = k + 0 \<and> 0 < length (n # ns) \<and> 0 < (n # ns) ! 0" by simp
      then show ?thesis by blast
    next
      case 2
      then have "x = k + Suc j \<and> Suc j < length (n # ns) \<and> 0 < (n # ns) ! Suc j" by simp
      then show ?thesis by blast
    qed
  qed
  with Cons show ?case by (auto split: if_splits)
qed

lemma sorted_blocks: "sorted (blocks k ns)"
proof (induction ns arbitrary: k)
  case Nil
  then show ?case by simp
next
  case (Cons n ns)
  have "\<forall>y \<in> set (blocks (Suc k) ns). k \<le> y"
    by (auto simp: set_blocks)
  with Cons show ?case
    by (auto simp: sorted_append)
qed

lemma blocks_slice:
  "i < length ns \<Longrightarrow>
   take (ns ! i) (drop (sum_list (take i ns)) (blocks k ns)) = replicate (ns ! i) (k + i)"
proof (induction ns arbitrary: k i)
  case Nil
  then show ?case by simp
next
  case (Cons n ns)
  show ?case
  proof (cases i)
    case 0
    then show ?thesis by simp
  next
    case (Suc j)
    with Cons.prems have "j < length ns" by simp
    from Cons.IH [OF this, of "Suc k"] Suc show ?thesis by simp
  qed
qed

lemma sint_of_nat_small: "x < 2 ^ 63 \<Longrightarrow> sint (of_nat x :: 64 word) = int x"
  by (simp add: signed_of_nat signed_take_bit_int_eq_self)

lemma np_array_int_InrD:
  assumes "np_array_int xs = Inr a"
  shows "a = NDArray [length xs] (map of_nat xs)" and "map sint (items a) = map int xs"
proof -
  have l: "list_all (\<lambda>x. x < 2 ^ 63) xs" and a: "a = NDArray [length xs] (map of_nat xs)"
    using assms by (auto simp: np_array_int_def split: if_splits)
  show "a = NDArray [length xs] (map of_nat xs)" by (rule a)
  have "map sint (map (of_nat :: nat \<Rightarrow> 64 word) xs) = map int xs"
    using l by (induction xs) (simp_all add: sint_of_nat_small)
  then show "map sint (items a) = map int xs"
    using a by simp
qed

lemma batch_graph_index_list:
  assumes "list_all is_GraphData graphs" and "BatchGraphData_init graphs = Inr b"
  shows "graph_index b = NDArray [num_nodes b] (map of_nat (graph_index_list graphs))"
    and "map sint (items (graph_index b)) = map int (graph_index_list graphs)"
    and "length (graph_index_list graphs) = num_nodes b"
proof -
  have i: "np_array_int (graph_index_list graphs) = Inr (graph_index b)"
    using BatchGraphData_init_InrD [OF assms(2)] by blast
  show l: "length (graph_index_list graphs) = num_nodes b"
    using batch_counts [OF assms] by (simp add: graph_index_list_blocks length_blocks)
  show "graph_index b = NDArray [num_nodes b] (map of_nat (graph_index_list graphs))"
    using np_array_int_InrD(1) [OF i] l by simp
  show "map sint (items (graph_index b)) = map int (graph_index_list graphs)"
    by (rule np_array_int_InrD(2) [OF i])
qed

lemma graph_index_list_props:
  shows "sorted (graph_index_list graphs)"
    and "\<forall>i<length graphs.
          take (num_nodes (graphs ! i)) (drop (sum_list (take i (map num_nodes graphs)))
            (graph_index_list graphs)) = replicate (num_nodes (graphs ! i)) i"
    and "set (graph_index_list graphs) = {i. i < length graphs \<and> 0 < num_nodes (graphs ! i)}"
    and "list_all (\<lambda>g. 0 < num_nodes g) graphs \<longrightarrow>
          set (graph_index_list graphs) = {0 ..< length graphs}"
proof -
  show "sorted (graph_index_list graphs)"
    by (simp add: graph_index_list_blocks sorted_blocks)
  show "\<forall>i<length graphs.
          take (num_nodes (graphs ! i)) (drop (sum_list (take i (map num_nodes graphs)))
            (graph_index_list graphs)) = replicate (num_nodes (graphs ! i)) i"
    using blocks_slice [of _ "map num_nodes graphs" 0]
    by (simp add: graph_index_list_blocks)
  show s: "set (graph_index_list graphs) = {i. i < length graphs \<and> 0 < num_nodes (graphs ! i)}"
    by (auto simp: graph_index_list_blocks set_blocks)
  show "list_all (\<lambda>g. 0 < num_nodes g) graphs \<longrightarrow>
          set (graph_index_list graphs) = {0 ..< length graphs}"
    unfolding s by (auto simp: list_all_length)
qed

text \<open>
  C4 (as stated, false): batching a graph without nodes and a graph with two nodes
  returns the \<^verbatim>\<open>graph_index\<close> \<open>[1, 1]\<close>, which has one distinct value for two graphs;
  the value 0 is missing.
\<close>

theorem batch_graph_index_skips_empty_graph:
  "is_GraphData graph_e \<and> is_GraphData graph_b
   \<and> BatchGraphData_init [graph_e, graph_b]
     = Inr \<lparr>node_features = NDArray [2, 1] [Num 3, Num 4],
            edge_index = NDArray [2, 1] [0, 1],
            edge_features = Some (NDArray [1, 1] [Num 7]),
            graph_features = None,
            num_nodes = 2, num_node_features = 1, num_edges = 1, num_edge_features = 1,
            graph_index = NDArray [2] [1, 1]\<rparr>
   \<and> card (set (items (NDArray [2] [1, 1 :: int64]))) = 1
   \<and> length [graph_e, graph_b] = 2"
  by (simp add: batch_defs init_defs is_GraphData_def graph_e_def graph_b_def eval_simps)

text \<open>
  C4 (amended). For constructed graphs and a returned batch, \<^verbatim>\<open>graph_index\<close> is the
  integer array of length \<^verbatim>\<open>num_nodes\<close> whose entries are the list \<open>graph_index_list\<close>;
  the list is non-decreasing; for every graph \<open>i\<close> the slice that starts at the sum of
  the node counts of the graphs before it and has the graph's node count as its length
  is all \<open>i\<close> (one contiguous block per graph, in input order); and its values are
  exactly the positions of the graphs that have at least one node, so they are
  \<open>0 .. len(graphs) - 1\<close> when no graph is empty.
\<close>

theorem batch_graph_index:
  assumes "list_all is_GraphData graphs" and "BatchGraphData_init graphs = Inr b"
  shows "graph_index b = NDArray [num_nodes b] (map of_nat (graph_index_list graphs))
       \<and> map sint (items (graph_index b)) = map int (graph_index_list graphs)
       \<and> length (graph_index_list graphs) = num_nodes b
       \<and> sorted (graph_index_list graphs)
       \<and> (\<forall>i<length graphs.
            take (num_nodes (graphs ! i)) (drop (sum_list (take i (map num_nodes graphs)))
              (graph_index_list graphs)) = replicate (num_nodes (graphs ! i)) i)
       \<and> set (graph_index_list graphs) = {i. i < length graphs \<and> 0 < num_nodes (graphs ! i)}
       \<and> (list_all (\<lambda>g. 0 < num_nodes g) graphs \<longrightarrow>
            set (graph_index_list graphs) = {0 ..< length graphs})"
  using batch_graph_index_list [OF assms] graph_index_list_props [of graphs] by blast

theorem batch_graph_index_witness:
  "list_all is_GraphData [graph_a, graph_b]
   \<and> BatchGraphData_init [graph_a, graph_b]
     = Inr \<lparr>node_features = NDArray [5, 1] [Num 0, Num 1, Num 2, Num 3, Num 4],
            edge_index = NDArray [2, 3] [0, 1, 3, 1, 2, 4],
            edge_features = Some (NDArray [3, 1] [Num 8, Num 9, Num 7]),
            graph_features = None,
            num_nodes = 5, num_node_features = 1, num_edges = 3, num_edge_features = 1,
            graph_index = NDArray [5] [0, 0, 0, 1, 1]\<rparr>
   \<and> list_all (\<lambda>g. 0 < num_nodes g) [graph_a, graph_b]
   \<and> sorted (graph_index_list [graph_a, graph_b])
   \<and> set (graph_index_list [graph_a, graph_b]) = {0 ..< length [graph_a, graph_b]}"
proof -
  have h: "list_all is_GraphData [graph_a, graph_b]"
    by (simp add: examples_are_GraphData)
  have p: "list_all (\<lambda>g. 0 < num_nodes g) [graph_a, graph_b]"
    by (simp add: graph_a_def graph_b_def)
  show ?thesis
    using h p batch_a_b batch_graph_index [OF h batch_a_b] by blast
qed

section \<open>Batching leaves its inputs alone\<close>

lemma heap_le_refl [simp]: "heap_le h h"
  by (simp add: heap_le_def)

lemma heap_le_trans: "heap_le h1 h2 \<Longrightarrow> heap_le h2 h3 \<Longrightarrow> heap_le h1 h3"
  by (auto simp: heap_le_def)

lemma new_features_le: "new_features h a = (h1, i) \<Longrightarrow> heap_le h h1 \<and> i = length (feature_arrays h)"
  by (auto simp: new_features_def heap_le_def)

lemma new_index_le: "new_index h a = (h1, i) \<Longrightarrow> heap_le h h1 \<and> i = length (index_arrays h)"
  by (auto simp: new_index_def heap_le_def)

lemma new_index_list_le: "new_index_list h xs = (h1, ids) \<Longrightarrow> heap_le h h1"
proof (induction xs arbitrary: h h1 ids)
  case Nil
  then show ?case by simp
next
  case (Cons a xs)
  then show ?case
    by (auto split: prod.splits dest!: new_index_le intro: heap_le_trans)
qed

lemma stack_if_present_heap_le:
  assumes "stack_if_present_heap h attr graphs = (h1, r)"
  shows "heap_le h h1" and "r = Inr (Some i) \<Longrightarrow> length (feature_arrays h) \<le> i"
  using assms
  by (auto simp: stack_if_present_heap_def split: sum.splits option.splits prod.splits
      dest!: new_features_le)

lemma heap_le_length:
  "heap_le h h' \<Longrightarrow> length (feature_arrays h) \<le> length (feature_arrays h')
     \<and> length (index_arrays h) \<le> length (index_arrays h')"
  by (auto simp: heap_le_def prefix_length_le)

lemma batch_edge_index_heap_le:
  assumes "batch_edge_index_heap h graphs = (h1, r)"
  shows "heap_le h h1" and "r = Inr i \<Longrightarrow> length (index_arrays h) \<le> i"
proof -
  show "heap_le h h1"
    using assms
    by (auto simp: batch_edge_index_heap_def Let_def split: sum.splits prod.splits
        dest!: new_index_le new_index_list_le intro: heap_le_trans)
  show "r = Inr i \<Longrightarrow> length (index_arrays h) \<le> i"
    using assms
    by (auto simp: batch_edge_index_heap_def Let_def split: sum.splits prod.splits
        dest!: new_index_le new_index_list_le heap_le_length)
qed


lemma GraphData_init_heap_ids:
  "GraphData_init_heap h nf ei ef gf = Inr g \<Longrightarrow>
     node_features_id g = nf \<and> edge_index_id g = ei \<and> edge_features_id g = ef
     \<and> graph_features_id g = gf"
  by (auto simp: GraphData_init_heap_def split: sum.splits)

lemma BatchGraphData_init_heap_le:
  assumes "BatchGraphData_init_heap h graphs = (h', res)"
  shows "heap_le h h'"
  using assms unfolding BatchGraphData_init_heap_def
  by (auto split: sum.splits prod.splits
      dest!: new_features_le new_index_le stack_if_present_heap_le(1)
        batch_edge_index_heap_le(1))
     (blast intro: heap_le_trans)+

lemma BatchGraphData_init_heap_fresh:
  assumes "BatchGraphData_init_heap h graphs = (h', Inr b)"
  shows "length (feature_arrays h) \<le> node_features_id b"
    and "length (index_arrays h) \<le> edge_index_id b"
    and "length (index_arrays h) \<le> graph_index_id b"
    and "edge_features_id b = Some i \<Longrightarrow> length (feature_arrays h) \<le> i"
    and "graph_features_id b = Some j \<Longrightarrow> length (feature_arrays h) \<le> j"
proof -
  obtain a h1 nid h2 efs h3 gfs h4 bei gi h5 gid g where
    s1: "new_features h a = (h1, nid)" and
    s2: "stack_if_present_heap h1 edge_features_id graphs = (h2, Inr efs)" and
    s3: "stack_if_present_heap h2 graph_features_id graphs = (h3, Inr gfs)" and
    s4: "batch_edge_index_heap h3 graphs = (h4, Inr bei)" and
    s5: "new_index h4 gi = (h5, gid)" and
    s6: "GraphData_init_heap h5 nid bei efs gfs = Inr g" and
    b: "node_features_id b = node_features_id g" "edge_index_id b = edge_index_id g"
       "edge_features_id b = edge_features_id g" "graph_features_id b = graph_features_id g"
       "graph_index_id b = gid"
    using assms unfolding BatchGraphData_init_heap_def
    by (auto split: sum.splits prod.splits)
  note ids = GraphData_init_heap_ids [OF s6]
  have l1: "heap_le h h1" "nid = length (feature_arrays h)"
    using new_features_le [OF s1] by simp_all
  have l2: "heap_le h1 h2" using stack_if_present_heap_le(1) [OF s2] .
  have l3: "heap_le h2 h3" using stack_if_present_heap_le(1) [OF s3] .
  have l4: "heap_le h3 h4" using batch_edge_index_heap_le(1) [OF s4] .
  have l5: "gid = length (index_arrays h4)" using new_index_le [OF s5] by simp
  have n1: "length (feature_arrays h) \<le> length (feature_arrays h1)"
    "length (index_arrays h) \<le> length (index_arrays h1)"
    using heap_le_length [OF l1(1)] by simp_all
  have n2: "length (feature_arrays h1) \<le> length (feature_arrays h2)"
    "length (index_arrays h1) \<le> length (index_arrays h2)"
    using heap_le_length [OF l2] by simp_all
  have n3: "length (index_arrays h2) \<le> length (index_arrays h3)"
    using heap_le_length [OF l3] by simp
  have n4: "length (index_arrays h3) \<le> length (index_arrays h4)"
    using heap_le_length [OF l4] by simp
  show "length (feature_arrays h) \<le> node_features_id b"
    using b ids l1 by simp
  show "length (index_arrays h) \<le> edge_index_id b"
    using batch_edge_index_heap_le(2) [OF s4, of bei] b ids n1 n2 n3 by simp
  show "length (index_arrays h) \<le> graph_index_id b"
    using b l5 n1 n2 n3 n4 by simp
  show "edge_features_id b = Some i \<Longrightarrow> length (feature_arrays h) \<le> i"
    using stack_if_present_heap_le(2) [OF s2, of i] b ids n1 by simp
  show "graph_features_id b = Some j \<Longrightarrow> length (feature_arrays h) \<le> j"
    using stack_if_present_heap_le(2) [OF s3, of j] b ids n1 n2 by simp
qed

lemma heap_le_feat: "heap_le h h' \<Longrightarrow> i < length (feature_arrays h) \<Longrightarrow> feat h' i = feat h i"
  by (auto simp: heap_le_def feat_def prefix_def nth_append)

lemma heap_le_idx: "heap_le h h' \<Longrightarrow> i < length (index_arrays h) \<Longrightarrow> idx h' i = idx h i"
  by (auto simp: heap_le_def idx_def prefix_def nth_append)

lemma heap_le_load: "heap_le h h' \<Longrightarrow> live h g \<Longrightarrow> load h' g = load h g"
  by (auto simp: load_def live_def heap_le_feat heap_le_idx split: option.splits)


lemmas heap_defs = BatchGraphData_init_heap_def stack_if_present_heap_def
  batch_edge_index_heap_def GraphData_init_heap_def new_features_def new_index_def
  feat_def idx_def

lemma batch_heap_ab:
  "BatchGraphData_init_heap heap_ab [obj_a, obj_b] =
     (\<lparr>feature_arrays = [NDArray [3, 1] [Num 0, Num 1, Num 2], NDArray [2, 1] [Num 8, Num 9],
                         NDArray [2, 1] [Num 3, Num 4], NDArray [1, 1] [Num 7],
                         NDArray [5, 1] [Num 0, Num 1, Num 2, Num 3, Num 4],
                         NDArray [3, 1] [Num 8, Num 9, Num 7]],
       index_arrays = [NDArray [2, 2] [0, 1, 1, 2], NDArray [2, 1] [0, 1],
                       NDArray [2, 2] [0, 1, 1, 2], NDArray [2, 1] [3, 4],
                       NDArray [2, 3] [0, 1, 3, 1, 2, 4], NDArray [2, 3] [0, 1, 3, 1, 2, 4],
                       NDArray [5] [0, 0, 0, 1, 1]]\<rparr>,
      Inr \<lparr>node_features_id = 4, edge_index_id = 5, edge_features_id = Some 5,
           graph_features_id = None, num_nodes_of = 5, num_node_features_of = 1,
           num_edges_of = 3, num_edge_features_of = 1, graph_index_id = 6\<rparr>)"
  by (simp add: heap_defs heap_ab_def obj_a_def obj_b_def graph_a_def graph_b_def
      vstack_def hstack_def concatenate_def atleast_1d_def atleast_2d_def block_def
      first_graph_def add_scalar_def astype_int_def np_array_int_def enumerate_eq_zip
      init_defs eval_simps)

text \<open>
  C9. Batching writes to no array that existed before the call: the heap after the call,
  whether the call returns or raises, holds every earlier array unchanged, so each
  source graph's \<^verbatim>\<open>node_features\<close> and \<^verbatim>\<open>edge_index\<close> (and its other arrays) read as
  before. The arrays of a returned record are new: their identities are past the end of
  the earlier heap, so none of them is an array of a source graph.
\<close>

theorem batch_no_side_effect:
  assumes "list_all (live h) graphs" and "BatchGraphData_init_heap h graphs = (h', res)"
  shows "heap_le h h'
       \<and> list_all (\<lambda>g. feat h' (node_features_id g) = feat h (node_features_id g)
                     \<and> idx h' (edge_index_id g) = idx h (edge_index_id g)
                     \<and> load h' g = load h g) graphs
       \<and> (\<forall>b. res = Inr b \<longrightarrow>
            length (feature_arrays h) \<le> node_features_id b
          \<and> length (index_arrays h) \<le> edge_index_id b
          \<and> length (index_arrays h) \<le> graph_index_id b
          \<and> list_all (\<lambda>g. feature_ids b \<inter> feature_ids g = {}
                        \<and> edge_index_id b \<noteq> edge_index_id g
                        \<and> graph_index_id b \<noteq> edge_index_id g) graphs)"
proof -
  have le: "heap_le h h'"
    using BatchGraphData_init_heap_le [OF assms(2)] .
  have same: "list_all (\<lambda>g. feat h' (node_features_id g) = feat h (node_features_id g)
                     \<and> idx h' (edge_index_id g) = idx h (edge_index_id g)
                     \<and> load h' g = load h g) graphs"
    using assms(1) le
    by (auto simp: list_all_iff heap_le_load heap_le_feat heap_le_idx live_def)
  have fresh: "length (feature_arrays h) \<le> node_features_id b
          \<and> length (index_arrays h) \<le> edge_index_id b
          \<and> length (index_arrays h) \<le> graph_index_id b
          \<and> list_all (\<lambda>g. feature_ids b \<inter> feature_ids g = {}
                        \<and> edge_index_id b \<noteq> edge_index_id g
                        \<and> graph_index_id b \<noteq> edge_index_id g) graphs"
    if r: "res = Inr b" for b
  proof -
    note f = BatchGraphData_init_heap_fresh [OF assms(2) [unfolded r]]
    have "\<forall>i \<in> feature_ids b. length (feature_arrays h) \<le> i"
      using f(1) f(4) f(5) by (auto simp: feature_ids_def)
    moreover have "\<forall>g \<in> set graphs. \<forall>i \<in> feature_ids g. i < length (feature_arrays h)"
      using assms(1) by (auto simp: list_all_iff live_def feature_ids_def split: option.splits)
    ultimately have "\<forall>g \<in> set graphs. feature_ids b \<inter> feature_ids g = {}"
      by fastforce
    moreover have "\<forall>g \<in> set graphs. edge_index_id g < length (index_arrays h)"
      using assms(1) by (auto simp: list_all_iff live_def)
    ultimately show ?thesis
      using f(1-3) by (fastforce simp: list_all_iff)
  qed
  from le same fresh show ?thesis by blast
qed

theorem batch_no_side_effect_witness:
  "list_all (live heap_ab) [obj_a, obj_b]
   \<and> BatchGraphData_init_heap heap_ab [obj_a, obj_b] =
     (\<lparr>feature_arrays = [NDArray [3, 1] [Num 0, Num 1, Num 2], NDArray [2, 1] [Num 8, Num 9],
                         NDArray [2, 1] [Num 3, Num 4], NDArray [1, 1] [Num 7],
                         NDArray [5, 1] [Num 0, Num 1, Num 2, Num 3, Num 4],
                         NDArray [3, 1] [Num 8, Num 9, Num 7]],
       index_arrays = [NDArray [2, 2] [0, 1, 1, 2], NDArray [2, 1] [0, 1],
                       NDArray [2, 2] [0, 1, 1, 2], NDArray [2, 1] [3, 4],
                       NDArray [2, 3] [0, 1, 3, 1, 2, 4], NDArray [2, 3] [0, 1, 3, 1, 2, 4],
                       NDArray [5] [0, 0, 0, 1, 1]]\<rparr>,
      Inr \<lparr>node_features_id = 4, edge_index_id = 5, edge_features_id = Some 5,
           graph_features_id = None, num_nodes_of = 5, num_node_features_of = 1,
           num_edges_of = 3, num_edge_features_of = 1, graph_index_id = 6\<rparr>)
   \<and> load heap_ab obj_a = graph_a \<and> load heap_ab obj_b = graph_b
   \<and> length (feature_arrays heap_ab) = 4 \<and> length (index_arrays heap_ab) = 2"
proof -
  have l: "list_all (live heap_ab) [obj_a, obj_b]"
    by (simp add: live_def heap_ab_def obj_a_def obj_b_def)
  have v: "load heap_ab obj_a = graph_a" "load heap_ab obj_b = graph_b"
    by (simp_all add: load_def feat_def idx_def heap_ab_def obj_a_def obj_b_def
        graph_a_def graph_b_def)
  show ?thesis
    using l v batch_heap_ab batch_no_side_effect [OF l batch_heap_ab]
    by (simp add: heap_ab_def)
qed

end
